theory Spec2Isabelle
  imports Complex_Main
begin

section \<open>Floating-point values\<close>

text \<open>
  The script computes with numpy \<open>float64\<close> scalars and arrays. A finite value
  is the rational it denotes; the three special values are kept, because
  numpy's division by zero produces them instead of raising. Signed zeros are
  identified: a bounding-box extent \<open>max - min\<close> that is zero is \<open>+0.0\<close>.

  Every operation is the exact operation followed by a rounding. The rounding
  is a parameter of the model: \<open>Binary64\<close> is IEEE 754 double precision,
  round to nearest, ties to even, with overflow to an infinity, the arithmetic
  of the program; \<open>Exact\<close> rounds nothing and is the arithmetic of the
  rationals, for statements that the spec makes about exact numbers.
\<close>

datatype fl = Fin rat | PInf | NInf | NaN

datatype arithmetic = Exact | Binary64

definition round_half_even :: "rat \<Rightarrow> int" where
  "round_half_even q =
     (let f = \<lfloor>q\<rfloor>; d = q - of_int f
      in if d < 1 / 2 then f else if 1 / 2 < d then f + 1 else if even f then f else f + 1)"

text \<open>The number of binary digits of a natural number.\<close>

function blen :: "nat \<Rightarrow> nat" where
  "blen n = (if n = 0 then 0 else Suc (blen (n div 2)))"
  by pat_completeness auto
termination
  by (relation "measure id") auto

declare blen.simps [simp del]

text \<open>The binary exponent of a non-zero rational: \<open>2 ^ e \<le> \<bar>q\<bar> < 2 ^ (e + 1)\<close>.\<close>

definition expo :: "rat \<Rightarrow> int" where
  "expo q =
     (let a = \<bar>q\<bar> in
      if 1 \<le> a then int (blen (nat \<lfloor>a\<rfloor>)) - 1
      else (let b = blen (nat \<lfloor>1 / a\<rfloor>)
            in if 1 / a = 2 ^ (b - 1) then 1 - int b else - int b))"

definition pow2 :: "int \<Rightarrow> rat" where
  "pow2 k = (if 0 \<le> k then 2 ^ nat k else 1 / 2 ^ nat (- k))"

text \<open>
  Rounding to the nearest double: 53 significant bits, exponents from -1022
  (below it the spacing stays \<open>2 ^ - 1074\<close>, the subnormal numbers) to 1023, above
  which the result is an infinity.
\<close>

definition round64 :: "rat \<Rightarrow> fl" where
  "round64 q =
     (if q = 0 then Fin 0
      else (let e = max (expo q) (- 1022);
                m = round_half_even (\<bar>q\<bar> / pow2 (e - 52))
            in if 1024 \<le> e \<or> (e = 1023 \<and> m = 2 ^ 53)
               then (if 0 < q then PInf else NInf)
               else Fin (sgn q * of_int m * pow2 (e - 52))))"

fun rnd :: "arithmetic \<Rightarrow> rat \<Rightarrow> fl" where
  "rnd Exact q = Fin q"
| "rnd Binary64 q = round64 q"

fun fneg :: "fl \<Rightarrow> fl" where
  "fneg (Fin a) = Fin (- a)"
| "fneg PInf = NInf"
| "fneg NInf = PInf"
| "fneg NaN = NaN"

fun fadd :: "arithmetic \<Rightarrow> fl \<Rightarrow> fl \<Rightarrow> fl" where
  "fadd A (Fin a) (Fin b) = rnd A (a + b)"
| "fadd A NaN y = NaN"
| "fadd A x NaN = NaN"
| "fadd A PInf NInf = NaN"
| "fadd A NInf PInf = NaN"
| "fadd A PInf y = PInf"
| "fadd A NInf y = NInf"
| "fadd A (Fin a) y = y"

definition fsub :: "arithmetic \<Rightarrow> fl \<Rightarrow> fl \<Rightarrow> fl" where
  "fsub A x y = fadd A x (fneg y)"

fun fmul :: "arithmetic \<Rightarrow> fl \<Rightarrow> fl \<Rightarrow> fl" where
  "fmul A (Fin a) (Fin b) = rnd A (a * b)"
| "fmul A NaN y = NaN"
| "fmul A x NaN = NaN"
| "fmul A (Fin a) y = (if a = 0 then NaN else if 0 < a then y else fneg y)"
| "fmul A x (Fin b) = (if b = 0 then NaN else if 0 < b then x else fneg x)"
| "fmul A PInf y = y"
| "fmul A NInf y = fneg y"

text \<open>numpy's true division of float64 scalars: a zero divisor gives an infinity
  or nan (with a RuntimeWarning), never an exception.\<close>

fun fdiv :: "arithmetic \<Rightarrow> fl \<Rightarrow> fl \<Rightarrow> fl" where
  "fdiv A (Fin a) (Fin b) =
     (if b \<noteq> 0 then rnd A (a / b)
      else if 0 < a then PInf else if a < 0 then NInf else NaN)"
| "fdiv A NaN y = NaN"
| "fdiv A x NaN = NaN"
| "fdiv A (Fin a) y = Fin 0"
| "fdiv A PInf (Fin b) = (if 0 \<le> b then PInf else NInf)"
| "fdiv A NInf (Fin b) = (if 0 \<le> b then NInf else PInf)"
| "fdiv A x y = NaN"

text \<open>\<open>x ** 3\<close>, the power function of the C library, taken as correctly rounded.\<close>

fun fcube :: "arithmetic \<Rightarrow> fl \<Rightarrow> fl" where
  "fcube A (Fin a) = rnd A (a * a * a)"
| "fcube A x = x"

text \<open>The comparison \<open><\<close>: false whenever a nan takes part.\<close>

fun flt :: "fl \<Rightarrow> fl \<Rightarrow> bool" where
  "flt (Fin a) (Fin b) = (a < b)"
| "flt NaN y = False"
| "flt x NaN = False"
| "flt NInf NInf = False"
| "flt NInf y = True"
| "flt x PInf = (x \<noteq> PInf)"
| "flt x y = False"

text \<open>Python's builtins \<open>min(a, b)\<close> and \<open>max(a, b)\<close> keep the first argument
  unless the second is strictly smaller (greater).\<close>

definition py_min :: "fl \<Rightarrow> fl \<Rightarrow> fl" where
  "py_min a b = (if flt b a then b else a)"

definition py_max :: "fl \<Rightarrow> fl \<Rightarrow> fl" where
  "py_max a b = (if flt a b then b else a)"

section \<open>Meshes and the library interface\<close>

type_synonym vec = "fl \<times> fl \<times> fl"

type_synonym face = "nat \<times> nat \<times> nat"

record mesh =
  vertices :: "vec list"
  faces :: "face list"

text \<open>Row-wise numpy arithmetic on an \<open>(n, 3)\<close> array and a 3-vector or scalar.\<close>

fun vsub :: "arithmetic \<Rightarrow> vec \<Rightarrow> vec \<Rightarrow> vec" where
  "vsub A (x, y, z) (a, b, c) = (fsub A x a, fsub A y b, fsub A z c)"

fun vadd :: "arithmetic \<Rightarrow> vec \<Rightarrow> vec \<Rightarrow> vec" where
  "vadd A (x, y, z) (a, b, c) = (fadd A x a, fadd A y b, fadd A z c)"

fun vscale :: "arithmetic \<Rightarrow> vec \<Rightarrow> fl \<Rightarrow> vec" where
  "vscale A (x, y, z) s = (fmul A x s, fmul A y s, fmul A z s)"

fun vdiv :: "arithmetic \<Rightarrow> vec \<Rightarrow> fl \<Rightarrow> vec" where
  "vdiv A (x, y, z) s = (fdiv A x s, fdiv A y s, fdiv A z s)"

text \<open>\<open>min(dimensions)\<close>: the builtin iterating over the three entries.\<close>

fun min_of :: "vec \<Rightarrow> fl" where
  "min_of (x, y, z) = py_min (py_min x y) z"

text \<open>\<open>np.fliplr\<close> on an \<open>(n, 3)\<close> index array reverses every row.\<close>

fun flip_row :: "face \<Rightarrow> face" where
  "flip_row (a, b, c) = (c, b, a)"

definition fliplr :: "face list \<Rightarrow> face list" where
  "fliplr fs = map flip_row fs"

datatype error = Raised string | TypeError

text \<open>
  The mesh library (trimesh) is not part of the repository. The operations whose
  result the script only passes on are parameters: loading and exporting act on a
  file system of type \<open>'fs\<close> and may raise; \<open>bounds\<close> is \<open>None\<close> or the pair of
  the minimum and maximum corner; \<open>centroid\<close>, \<open>volume\<close> and \<open>is_watertight\<close>
  are attributes computed from a mesh. An export that raises hands back the file
  system as it left it.
\<close>

record 'fs trimesh =
  load_mesh :: "string \<Rightarrow> 'fs \<Rightarrow> error + mesh"
  volume :: "mesh \<Rightarrow> fl"
  is_watertight :: "mesh \<Rightarrow> bool"
  bounds :: "mesh \<Rightarrow> (vec \<times> vec) option"
  centroid :: "mesh \<Rightarrow> vec"
  export :: "mesh \<Rightarrow> string \<Rightarrow> 'fs \<Rightarrow> error option \<times> 'fs"

fun offset_face :: "nat \<Rightarrow> face \<Rightarrow> face" where
  "offset_face n (a, b, c) = (a + n, b + n, c + n)"

text \<open>
  Modelled from the spec: \<open>trimesh.util.concatenate\<close> is library code. The result
  has the vertex sequences one after the other, and the face sequences one after
  the other with the indices of each mesh offset by the number of vertices before
  it; nothing is merged.
\<close>

fun concatenate :: "mesh list \<Rightarrow> mesh" where
  "concatenate [] = \<lparr>vertices = [], faces = []\<rparr>"
| "concatenate (m # ms) =
     \<lparr>vertices = vertices m @ vertices (concatenate ms),
      faces = faces m @ map (offset_face (length (vertices m))) (faces (concatenate ms))\<rparr>"

section \<open>The world: files, objects, console\<close>

datatype line =
    Loading string
  | Original_mesh
  | Vertices nat
  | Faces nat
  | Volume fl
  | Is_watertight bool
  | Creating_shell fl
  | Scale_factor fl
  | Combining
  | Hollow_mesh
  | Savings fl
  | Exporting string
  | Done
  | Should_save fl

text \<open>
  Mesh objects live in a store; a Python variable holds the address of its object,
  which is its index in \<open>heap\<close>. Assigning to an attribute updates the object at
  that address, so two variables holding one address would see each other's
  assignments.
\<close>

record 'fs world =
  fs :: 'fs
  heap :: "mesh list"
  stdout :: "line list"

definition py_print :: "line \<Rightarrow> 'fs world \<Rightarrow> 'fs world" where
  "py_print l w = w\<lparr>stdout := stdout w @ [l]\<rparr>"

definition alloc :: "mesh \<Rightarrow> 'fs world \<Rightarrow> nat \<times> 'fs world" where
  "alloc m w = (length (heap w), w\<lparr>heap := heap w @ [m]\<rparr>)"

definition deref :: "'fs world \<Rightarrow> nat \<Rightarrow> mesh" where
  "deref w a = heap w ! a"

text \<open>Modelled from the spec: \<open>mesh.copy()\<close> is library code; it makes a deep copy,
  a new object with the same vertices and faces.\<close>

definition copy_mesh :: "nat \<Rightarrow> 'fs world \<Rightarrow> nat \<times> 'fs world" where
  "copy_mesh a w = alloc (deref w a) w"

definition set_vertices :: "nat \<Rightarrow> vec list \<Rightarrow> 'fs world \<Rightarrow> 'fs world" where
  "set_vertices a vs w = w\<lparr>heap := (heap w)[a := (deref w a)\<lparr>vertices := vs\<rparr>]\<rparr>"

definition set_faces :: "nat \<Rightarrow> face list \<Rightarrow> 'fs world \<Rightarrow> 'fs world" where
  "set_faces a fcs w = w\<lparr>heap := (heap w)[a := (deref w a)\<lparr>faces := fcs\<rparr>]\<rparr>"

section \<open>make\_hollow\<close>

text \<open>Lines 22 to 26: the diagnostics of the loaded mesh.\<close>

definition report_original :: "'fs trimesh \<Rightarrow> nat \<Rightarrow> 'fs world \<Rightarrow> 'fs world" where
  "report_original L mesh w =
     py_print (Is_watertight (is_watertight L (deref w mesh)))
       (py_print (Volume (volume L (deref w mesh)))
         (py_print (Faces (length (faces (deref w mesh))))
           (py_print (Vertices (length (vertices (deref w mesh))))
             (py_print Original_mesh w))))"

text \<open>Lines 31 to 36: \<open>dimensions\<close>, \<open>min_dim\<close> and the first \<open>scale_factor\<close>.\<close>

definition raw_scale_factor :: "arithmetic \<Rightarrow> vec \<times> vec \<Rightarrow> fl \<Rightarrow> fl" where
  "raw_scale_factor A bnds wall_thickness =
     (let dimensions = vsub A (snd bnds) (fst bnds);
          min_dim = min_of dimensions
      in fdiv A (fsub A min_dim (fmul A (Fin 2) wall_thickness)) min_dim)"

text \<open>Line 40: \<open>max(0.7, min(scale_factor, 0.95))\<close>. The two literals are the
  values nearest to 0.7 and 0.95 in the arithmetic.\<close>

definition clamp_scale_factor :: "arithmetic \<Rightarrow> fl \<Rightarrow> fl" where
  "clamp_scale_factor A scale_factor =
     py_max (rnd A (7 / 10)) (py_min scale_factor (rnd A (19 / 20)))"

text \<open>Line 50, for one row: \<open>(v - center) * scale_factor + center\<close>.\<close>

definition scale_about :: "arithmetic \<Rightarrow> vec \<Rightarrow> fl \<Rightarrow> vec \<Rightarrow> vec" where
  "scale_about A center scale_factor v =
     vadd A (vscale A (vsub A v center) scale_factor) center"

text \<open>\<open>(1 - scale_factor**3) * 100\<close>, printed at lines 62 and 69.\<close>

definition savings :: "arithmetic \<Rightarrow> fl \<Rightarrow> fl" where
  "savings A scale_factor = fmul A (fsub A (Fin 1) (fcube A scale_factor)) (Fin 100)"

text \<open>Lines 46 to 53: the inner mesh, a scaled copy with every face reversed.\<close>

definition create_inner ::
  "arithmetic \<Rightarrow> 'fs trimesh \<Rightarrow> nat \<Rightarrow> fl \<Rightarrow> 'fs world \<Rightarrow> nat \<times> 'fs world" where
  "create_inner A L mesh scale_factor w =
     (let (inner_mesh, w1) = copy_mesh mesh w;
          center = centroid L (deref w1 mesh);
          w2 = set_vertices inner_mesh
                 (map (scale_about A center scale_factor) (vertices (deref w1 inner_mesh))) w1;
          w3 = set_faces inner_mesh (fliplr (faces (deref w2 inner_mesh))) w2
      in (inner_mesh, w3))"

text \<open>Lines 56 to 62: the combined mesh and its diagnostics.\<close>

definition combine ::
  "arithmetic \<Rightarrow> nat \<Rightarrow> nat \<Rightarrow> fl \<Rightarrow> 'fs world \<Rightarrow> nat \<times> 'fs world" where
  "combine A mesh inner_mesh scale_factor w =
     (let w1 = py_print Combining w;
          (hollow_mesh, w2) = alloc (concatenate [deref w1 mesh, deref w1 inner_mesh]) w1;
          w3 = py_print (Savings (savings A scale_factor))
                 (py_print (Faces (length (faces (deref w2 hollow_mesh))))
                   (py_print (Vertices (length (vertices (deref w2 hollow_mesh))))
                     (py_print Hollow_mesh w2)))
      in (hollow_mesh, w3))"

text \<open>
  Lines 65 to 69. The function returns \<open>None\<close> when it returns normally and the
  exception when one propagates; there is no handler, so the first exception ends
  the call. The world it returns is the world at that moment.
\<close>

definition export_hollow ::
  "arithmetic \<Rightarrow> 'fs trimesh \<Rightarrow> nat \<Rightarrow> string \<Rightarrow> fl \<Rightarrow> 'fs world \<Rightarrow> error option \<times> 'fs world" where
  "export_hollow A L hollow_mesh output_file scale_factor w =
     (let w1 = py_print (Exporting output_file) w in
      case export L (deref w1 hollow_mesh) output_file (fs w1) of
        (Some e, fs') \<Rightarrow> (Some e, w1\<lparr>fs := fs'\<rparr>)
      | (None, fs') \<Rightarrow>
          (None, py_print (Should_save (savings A scale_factor))
                   (py_print Done (w1\<lparr>fs := fs'\<rparr>))))"

definition make_hollow ::
  "arithmetic \<Rightarrow> 'fs trimesh \<Rightarrow> string \<Rightarrow> string \<Rightarrow> fl \<Rightarrow> 'fs world \<Rightarrow>
     error option \<times> 'fs world" where
  "make_hollow A L input_file output_file wall_thickness w0 =
    (let w1 = py_print (Loading input_file) w0 in
     case load_mesh L input_file (fs w1) of
       Inl e \<Rightarrow> (Some e, w1)
     | Inr loaded \<Rightarrow>
        (let (mesh, w2) = alloc loaded w1;
             w3 = report_original L mesh w2
         in case bounds L (deref w3 mesh) of
              None \<Rightarrow> (Some TypeError, w3)
            | Some bnds \<Rightarrow>
               (let scale_factor = raw_scale_factor A bnds wall_thickness;
                    scale_factor = clamp_scale_factor A scale_factor;
                    w4 = py_print (Scale_factor scale_factor)
                           (py_print (Creating_shell wall_thickness) w3);
                    (inner_mesh, w5) = create_inner A L mesh scale_factor w4;
                    (hollow_mesh, w6) = combine A mesh inner_mesh scale_factor w5
                in export_hollow A L hollow_mesh output_file scale_factor w6)))"

text \<open>The meshes the call builds, as values: the inner shell and the combined mesh.\<close>

definition inner_shell :: "arithmetic \<Rightarrow> 'fs trimesh \<Rightarrow> mesh \<Rightarrow> fl \<Rightarrow> mesh" where
  "inner_shell A L m scale_factor =
     \<lparr>vertices = map (scale_about A (centroid L m) scale_factor) (vertices m),
      faces = fliplr (faces m)\<rparr>"

definition hollow_shell :: "arithmetic \<Rightarrow> 'fs trimesh \<Rightarrow> mesh \<Rightarrow> fl \<Rightarrow> mesh" where
  "hollow_shell A L m scale_factor = concatenate [m, inner_shell A L m scale_factor]"

text \<open>The vertex indices a face uses, without their order.\<close>

fun face_indices :: "face \<Rightarrow> nat set" where
  "face_indices (a, b, c) = {a, b, c}"

section \<open>An in-memory library for concrete runs\<close>

text \<open>
  Modelled from the spec: the library itself is not in the repository. This
  instance of the interface follows the data model of the spec: files hold
  meshes, the bounding box is the minimum and maximum corner per axis (none for a
  mesh without vertices), the centroid is the vertex average, the volume is the
  signed volume of the faces, and a mesh is watertight when every edge belongs to
  exactly two faces with consistent orientation. Loading a missing file raises,
  exporting stores the mesh at the path. The centroid and the volume are
  computed in the arithmetic given.
\<close>

type_synonym mem_fs = "(string \<times> mesh) list"

fun vmin :: "vec \<Rightarrow> vec \<Rightarrow> vec" where
  "vmin (x, y, z) (a, b, c) = (py_min a x, py_min b y, py_min c z)"

fun vmax :: "vec \<Rightarrow> vec \<Rightarrow> vec" where
  "vmax (x, y, z) (a, b, c) = (py_max a x, py_max b y, py_max c z)"

definition mem_bounds :: "mesh \<Rightarrow> (vec \<times> vec) option" where
  "mem_bounds m =
     (case vertices m of [] \<Rightarrow> None | v # vs \<Rightarrow> Some (fold vmin vs v, fold vmax vs v))"

definition mem_centroid :: "arithmetic \<Rightarrow> mesh \<Rightarrow> vec" where
  "mem_centroid A m =
     vdiv A (fold (\<lambda>v acc. vadd A acc v) (vertices m) (Fin 0, Fin 0, Fin 0))
       (Fin (of_nat (length (vertices m))))"

definition vertex_at :: "mesh \<Rightarrow> nat \<Rightarrow> vec" where
  "vertex_at m a = (if a < length (vertices m) then vertices m ! a else (NaN, NaN, NaN))"

fun det3 :: "arithmetic \<Rightarrow> vec \<Rightarrow> vec \<Rightarrow> vec \<Rightarrow> fl" where
  "det3 A (x1, y1, z1) (x2, y2, z2) (x3, y3, z3) =
     fadd A (fsub A (fmul A x1 (fsub A (fmul A y2 z3) (fmul A y3 z2)))
                    (fmul A y1 (fsub A (fmul A x2 z3) (fmul A x3 z2))))
            (fmul A z1 (fsub A (fmul A x2 y3) (fmul A x3 y2)))"

definition mem_volume :: "arithmetic \<Rightarrow> mesh \<Rightarrow> fl" where
  "mem_volume A m =
     fdiv A
       (fold (\<lambda>(a, b, c) acc.
                fadd A acc (det3 A (vertex_at m a) (vertex_at m b) (vertex_at m c)))
          (faces m) (Fin 0))
       (Fin 6)"

definition mem_watertight :: "mesh \<Rightarrow> bool" where
  "mem_watertight m =
     (let es = concat (map (\<lambda>(a, b, c). [(a, b), (b, c), (c, a)]) (faces m))
      in list_all (\<lambda>(a, b). count_list es (a, b) = 1 \<and> count_list es (b, a) = 1) es)"

definition mem_load :: "string \<Rightarrow> mem_fs \<Rightarrow> error + mesh" where
  "mem_load path f =
     (case map_of f path of None \<Rightarrow> Inl (Raised ''FileNotFoundError'') | Some m \<Rightarrow> Inr m)"

definition mem_export :: "mesh \<Rightarrow> string \<Rightarrow> mem_fs \<Rightarrow> error option \<times> mem_fs" where
  "mem_export m path f = (None, (path, m) # f)"

definition mem_lib :: "arithmetic \<Rightarrow> mem_fs trimesh" where
  "mem_lib A =
     \<lparr>load_mesh = mem_load, volume = mem_volume A, is_watertight = mem_watertight,
      bounds = mem_bounds, centroid = mem_centroid A, export = mem_export\<rparr>"

text \<open>An export that opens its target for writing, which empties it, and then
  raises before any data is written.\<close>

definition truncating_export :: "mesh \<Rightarrow> string \<Rightarrow> mem_fs \<Rightarrow> error option \<times> mem_fs" where
  "truncating_export m path f =
     (Some (Raised ''OSError''), (path, \<lparr>vertices = [], faces = []\<rparr>) # f)"

definition vtx :: "rat \<Rightarrow> rat \<Rightarrow> rat \<Rightarrow> vec" where
  "vtx x y z = (Fin x, Fin y, Fin z)"

definition unit_cube :: mesh where
  "unit_cube =
     \<lparr>vertices = [vtx 0 0 0, vtx 1 0 0, vtx 1 1 0, vtx 0 1 0,
                   vtx 0 0 1, vtx 1 0 1, vtx 1 1 1, vtx 0 1 1],
      faces = [(0, 2, 1), (0, 3, 2), (4, 5, 6), (4, 6, 7), (0, 1, 5), (0, 5, 4),
               (1, 2, 6), (1, 6, 5), (2, 3, 7), (2, 7, 6), (3, 0, 4), (3, 4, 7)]\<rparr>"

definition flat_triangle :: mesh where
  "flat_triangle = \<lparr>vertices = [vtx 0 0 0, vtx 1 0 0, vtx 0 1 0], faces = [(0, 1, 2)]\<rparr>"

text \<open>The two doubles next to 1, and a tetrahedron whose corner coordinates
  they are.\<close>

definition below_one :: rat where
  "below_one = 1 - 1 / 2 ^ 53"

definition above_one :: rat where
  "above_one = 1 + 1 / 2 ^ 52"

definition tiny_tetrahedron :: mesh where
  "tiny_tetrahedron =
     \<lparr>vertices =
        [vtx below_one below_one below_one, vtx above_one below_one below_one,
         vtx below_one above_one below_one, vtx below_one below_one above_one],
      faces = [(0, 2, 1), (0, 1, 3), (0, 3, 2), (1, 2, 3)]\<rparr>"

definition disk :: "mesh \<Rightarrow> mem_fs world" where
  "disk m = \<lparr>fs = [(''Top.stl'', m)], heap = [], stdout = []\<rparr>"

section \<open>The stages of make\_hollow\<close>

lemma py_print_sel [simp]:
  "fs (py_print l w) = fs w" "heap (py_print l w) = heap w"
  "stdout (py_print l w) = stdout w @ [l]"
  by (simp_all add: py_print_def)

lemma report_original_sel [simp]:
  "fs (report_original L a w) = fs w" "heap (report_original L a w) = heap w"
  "stdout (report_original L a w) =
     stdout w @ [Original_mesh, Vertices (length (vertices (heap w ! a))),
                 Faces (length (faces (heap w ! a))), Volume (volume L (heap w ! a)),
                 Is_watertight (is_watertight L (heap w ! a))]"
  by (simp_all add: report_original_def deref_def)

lemma create_inner_eq:
  assumes "heap w = h @ [m]"
  shows "fs (snd (create_inner A L (length h) s w)) = fs w"
    and "heap (snd (create_inner A L (length h) s w)) = h @ [m, inner_shell A L m s]"
    and "stdout (snd (create_inner A L (length h) s w)) = stdout w"
  using assms
  by (simp_all add: create_inner_def copy_mesh_def alloc_def deref_def set_vertices_def
      set_faces_def inner_shell_def nth_append list_update_append)

lemma create_inner_addr [simp]:
  "fst (create_inner A L a s w) = length (heap w)"
  "length (heap (snd (create_inner A L a s w))) = Suc (length (heap w))"
  by (simp_all add: create_inner_def copy_mesh_def alloc_def set_vertices_def set_faces_def
      Let_def)

lemma combine_eq:
  assumes "heap w = h @ [m, i]"
  shows "fs (snd (combine A (length h) (Suc (length h)) s w)) = fs w"
    and "heap (snd (combine A (length h) (Suc (length h)) s w)) = h @ [m, i, concatenate [m, i]]"
    and "stdout (snd (combine A (length h) (Suc (length h)) s w)) =
           stdout w @ [Combining, Hollow_mesh,
                       Vertices (length (vertices (concatenate [m, i]))),
                       Faces (length (faces (concatenate [m, i]))), Savings (savings A s)]"
  using assms
  by (simp_all add: combine_def alloc_def deref_def nth_append Let_def)

lemma combine_addr [simp]:
  "fst (combine A a i s w) = length (heap w)"
  by (simp add: combine_def alloc_def Let_def)

lemma export_hollow_eq:
  assumes "heap w = h @ [m, i, H]"
  shows "fst (export_hollow A L (Suc (Suc (length h))) out s w) = fst (export L H out (fs w))"
    and "fs (snd (export_hollow A L (Suc (Suc (length h))) out s w)) = snd (export L H out (fs w))"
    and "heap (snd (export_hollow A L (Suc (Suc (length h))) out s w)) = heap w"
    and "stdout (snd (export_hollow A L (Suc (Suc (length h))) out s w)) =
           stdout w @ Exporting out #
             (if fst (export L H out (fs w)) = None then [Done, Should_save (savings A s)] else [])"
  using assms
  by (simp_all add: export_hollow_def deref_def nth_append Let_def
      split: prod.splits option.splits)

lemma make_hollow_load_fail:
  assumes "load_mesh L inp (fs w) = Inl e"
  shows "make_hollow A L inp out wt w = (Some e, py_print (Loading inp) w)"
  using assms by (simp add: make_hollow_def)

lemma make_hollow_bounds_fail:
  assumes "load_mesh L inp (fs w) = Inr m" and "bounds L m = None"
  shows "fst (make_hollow A L inp out wt w) = Some TypeError"
    and "fs (snd (make_hollow A L inp out wt w)) = fs w"
    and "heap (snd (make_hollow A L inp out wt w)) = heap w @ [m]"
  using assms by (simp_all add: make_hollow_def alloc_def deref_def)

lemma make_hollow_unfold:
  assumes ld: "load_mesh L inp (fs w) = Inr m" and bd: "bounds L m = Some b"
    and s: "s = clamp_scale_factor A (raw_scale_factor A b wt)"
    and w4: "w4 = py_print (Scale_factor s) (py_print (Creating_shell wt)
                    (report_original L (length (heap w))
                       (py_print (Loading inp) w\<lparr>heap := heap w @ [m]\<rparr>)))"
  shows "make_hollow A L inp out wt w =
           export_hollow A L (Suc (Suc (length (heap w)))) out s
             (snd (combine A (length (heap w)) (Suc (length (heap w))) s
                (snd (create_inner A L (length (heap w)) s w4))))"
  using ld bd
  by (simp add: make_hollow_def Let_def split_beta alloc_def deref_def s w4)

lemma make_hollow_run:
  assumes ld: "load_mesh L inp (fs w) = Inr m" and bd: "bounds L m = Some b"
    and s: "s = clamp_scale_factor A (raw_scale_factor A b wt)"
  shows "fst (make_hollow A L inp out wt w) = fst (export L (hollow_shell A L m s) out (fs w))"
    and "fs (snd (make_hollow A L inp out wt w)) = snd (export L (hollow_shell A L m s) out (fs w))"
    and "heap (snd (make_hollow A L inp out wt w)) =
           heap w @ [m, inner_shell A L m s, hollow_shell A L m s]"
    and "stdout (snd (make_hollow A L inp out wt w)) =
           stdout w @
           [Loading inp, Original_mesh, Vertices (length (vertices m)),
            Faces (length (faces m)), Volume (volume L m),
            Is_watertight (is_watertight L m), Creating_shell wt, Scale_factor s,
            Combining, Hollow_mesh, Vertices (length (vertices (hollow_shell A L m s))),
            Faces (length (faces (hollow_shell A L m s))), Savings (savings A s),
            Exporting out] @
           (if fst (export L (hollow_shell A L m s) out (fs w)) = None
            then [Done, Should_save (savings A s)] else [])"
proof -
  define h where "h = heap w"
  define w4 where "w4 = py_print (Scale_factor s) (py_print (Creating_shell wt)
                    (report_original L (length (heap w))
                       (py_print (Loading inp) w\<lparr>heap := heap w @ [m]\<rparr>)))"
  define r5 where "r5 = create_inner A L (length h) s w4"
  define r6 where "r6 = combine A (length h) (Suc (length h)) s (snd r5)"
  have h4: "heap w4 = h @ [m]" and f4: "fs w4 = fs w"
    and o4: "stdout w4 = stdout w @
           [Loading inp, Original_mesh, Vertices (length (vertices m)),
            Faces (length (faces m)), Volume (volume L m),
            Is_watertight (is_watertight L m), Creating_shell wt, Scale_factor s]"
    by (simp_all add: w4_def h_def)
  have f5: "fs (snd r5) = fs w"
    and h5: "heap (snd r5) = h @ [m, inner_shell A L m s]"
    and o5: "stdout (snd r5) = stdout w4"
    unfolding r5_def using create_inner_eq [OF h4, of A L s] by (simp_all add: f4)
  have f6: "fs (snd r6) = fs w"
    and h6: "heap (snd r6) = h @ [m, inner_shell A L m s, hollow_shell A L m s]"
    and o6: "stdout (snd r6) = stdout w4 @ [Combining, Hollow_mesh,
               Vertices (length (vertices (hollow_shell A L m s))),
               Faces (length (faces (hollow_shell A L m s))), Savings (savings A s)]"
    unfolding r6_def using combine_eq [OF h5, of A s] by (simp_all add: f5 o5 hollow_shell_def)
  have mh: "make_hollow A L inp out wt w = export_hollow A L (Suc (Suc (length h))) out s (snd r6)"
    unfolding r6_def r5_def h_def by (rule make_hollow_unfold [OF ld bd s w4_def])
  show "fst (make_hollow A L inp out wt w) = fst (export L (hollow_shell A L m s) out (fs w))"
    using export_hollow_eq(1) [OF h6, of A L out s] by (simp add: mh f6)
  show "fs (snd (make_hollow A L inp out wt w)) = snd (export L (hollow_shell A L m s) out (fs w))"
    using export_hollow_eq(2) [OF h6, of A L out s] by (simp add: mh f6)
  show "heap (snd (make_hollow A L inp out wt w)) =
           heap w @ [m, inner_shell A L m s, hollow_shell A L m s]"
    using export_hollow_eq(3) [OF h6, of A L out s] by (simp add: mh h6 h_def)
  show "stdout (snd (make_hollow A L inp out wt w)) =
           stdout w @
           [Loading inp, Original_mesh, Vertices (length (vertices m)),
            Faces (length (faces m)), Volume (volume L m),
            Is_watertight (is_watertight L m), Creating_shell wt, Scale_factor s,
            Combining, Hollow_mesh, Vertices (length (vertices (hollow_shell A L m s))),
            Faces (length (faces (hollow_shell A L m s))), Savings (savings A s),
            Exporting out] @
           (if fst (export L (hollow_shell A L m s) out (fs w)) = None
            then [Done, Should_save (savings A s)] else [])"
    using export_hollow_eq(4) [OF h6, of A L out s] by (simp add: mh f6 o6 o4)
qed

section \<open>Rounding, evaluated\<close>

lemma floor_rat_numeral [simp]:
  "\<lfloor>(numeral a :: rat) / numeral b\<rfloor> = numeral a div numeral b"
  using floor_divide_of_int_eq [of "numeral a" "numeral b", where ?'a = rat] by simp

lemmas r64 = round64_def expo_def pow2_def round_half_even_def Let_def blen.simps

lemma round64_small_integers:
  "round64 0 = Fin 0" "round64 1 = Fin 1" "round64 2 = Fin 2" "round64 3 = Fin 3" "round64 4 = Fin 4"
  "round64 (- 4) = Fin (- 4)"
  by (simp_all add: r64)

lemma round64_literals:
  "round64 (7 / 10) = Fin (3152519739159347 / 4503599627370496)"
  "round64 (19 / 20) = Fin (4278419646001971 / 4503599627370496)"
  "round64 (8 / 10) = Fin (3602879701896397 / 4503599627370496)"
  "round64 (1 / 10) = Fin (3602879701896397 / 36028797018963968)"
  "round64 (3 / 10) = Fin (5404319552844595 / 18014398509481984)"
  "round64 (1 / 1000) = Fin (1152921504606847 / 1152921504606846976)"
  by (simp_all add: r64)

section \<open>The scale factor\<close>

lemma literals_finite:
  "\<exists>lo hi. rnd A (7 / 10) = Fin lo \<and> rnd A (19 / 20) = Fin hi \<and> 0 < lo \<and> lo < hi \<and> hi < 1"
proof (cases A)
  case Exact
  have "rnd A (7 / 10) = Fin (7 / 10)" "rnd A (19 / 20) = Fin (19 / 20)"
    by (simp_all add: Exact)
  moreover have "(0::rat) < 7 / 10" "(7::rat) / 10 < 19 / 20" "(19::rat) / 20 < 1"
    by simp_all
  ultimately show ?thesis by blast
next
  case Binary64
  have "rnd A (7 / 10) = Fin (3152519739159347 / 4503599627370496)"
    "rnd A (19 / 20) = Fin (4278419646001971 / 4503599627370496)"
    by (simp_all add: Binary64 round64_literals)
  moreover have "(0::rat) < 3152519739159347 / 4503599627370496"
    "(3152519739159347::rat) / 4503599627370496 < 4278419646001971 / 4503599627370496"
    "(4278419646001971::rat) / 4503599627370496 < 1"
    by simp_all
  ultimately show ?thesis by blast
qed

lemma clamp_scale_factor_Fin:
  assumes "rnd A (7 / 10) = Fin lo" and "rnd A (19 / 20) = Fin hi"
  shows "clamp_scale_factor A (Fin x) = Fin (max lo (min x hi))"
  using assms by (simp add: clamp_scale_factor_def py_max_def py_min_def)

lemma clamp_scale_factor_special:
  assumes "rnd A (7 / 10) = Fin lo" and "rnd A (19 / 20) = Fin hi" and "lo \<le> hi"
  shows "clamp_scale_factor A PInf = Fin hi"
    and "clamp_scale_factor A NInf = Fin lo"
    and "clamp_scale_factor A NaN = Fin lo"
  using assms by (simp_all add: clamp_scale_factor_def py_max_def py_min_def)

lemma clamp_scale_factor_range:
  "\<exists>s lo hi. rnd A (7 / 10) = Fin lo \<and> rnd A (19 / 20) = Fin hi \<and>
             clamp_scale_factor A x = Fin s \<and> lo \<le> s \<and> s \<le> hi \<and> 0 < lo \<and> hi < 1"
proof -
  obtain lo hi where l: "rnd A (7 / 10) = Fin lo" and h: "rnd A (19 / 20) = Fin hi"
    and b: "0 < lo" "lo < hi" "hi < 1"
    using literals_finite by blast
  from b have le: "lo \<le> hi" by simp
  have "\<exists>s. clamp_scale_factor A x = Fin s \<and> lo \<le> s \<and> s \<le> hi"
  proof (cases x)
    case (Fin a)
    have "clamp_scale_factor A x = Fin (max lo (min a hi))"
      by (simp only: Fin clamp_scale_factor_Fin [OF l h])
    moreover have "lo \<le> max lo (min a hi)"
      by (rule max.cobounded1)
    moreover have "max lo (min a hi) \<le> hi"
      using le by (intro max.boundedI) simp_all
    ultimately show ?thesis by blast
  next
    case PInf
    have "clamp_scale_factor A x = Fin hi"
      by (simp only: PInf clamp_scale_factor_special [OF l h le])
    with le show ?thesis by blast
  next
    case NInf
    have "clamp_scale_factor A x = Fin lo"
      by (simp only: NInf clamp_scale_factor_special [OF l h le])
    with le show ?thesis by blast
  next
    case NaN
    have "clamp_scale_factor A x = Fin lo"
      by (simp only: NaN clamp_scale_factor_special [OF l h le])
    with le show ?thesis by blast
  qed
  with l h b show ?thesis by blast
qed

lemma min_of_finite: "min_of (Fin a, Fin b, Fin c) = Fin (min (min a b) c)"
  by (simp add: py_min_def min_def)

lemma raw_scale_factor_min_dim:
  assumes "min_of (vsub A hi lo) = Fin d"
  shows "raw_scale_factor A (lo, hi) wt = fdiv A (fsub A (Fin d) (fmul A (Fin 2) wt)) (Fin d)"
  using assms by (simp add: raw_scale_factor_def Let_def)

lemma raw_scale_factor_exact:
  assumes "min_of (vsub Exact hi lo) = Fin d" and "d \<noteq> 0"
  shows "raw_scale_factor Exact (lo, hi) (Fin t) = Fin ((d - 2 * t) / d)"
  using assms by (simp add: raw_scale_factor_def fsub_def)

lemma unit_scale_factors:
  "clamp_scale_factor A (fdiv A (fsub A (Fin 1) (fmul A (Fin 2) (rnd A (1 / 10)))) (Fin 1)) =
     rnd A (8 / 10)"
  "clamp_scale_factor A (fdiv A (fsub A (Fin 1) (fmul A (Fin 2) (rnd A (3 / 10)))) (Fin 1)) =
     rnd A (7 / 10)"
  "clamp_scale_factor A (fdiv A (fsub A (Fin 1) (fmul A (Fin 2) (rnd A (1 / 1000)))) (Fin 1)) =
     rnd A (95 / 100)"
  by (cases A; simp add: clamp_scale_factor_def py_max_def py_min_def fsub_def r64)+

lemma mem_lib_sel [simp]:
  "load_mesh (mem_lib A) = mem_load" "bounds (mem_lib A) = mem_bounds"
  "centroid (mem_lib A) = mem_centroid A" "export (mem_lib A) = mem_export"
  "volume (mem_lib A) = mem_volume A" "is_watertight (mem_lib A) = mem_watertight"
  by (simp_all add: mem_lib_def)

lemma disk_sel [simp]:
  "fs (disk m) = [(''Top.stl'', m)]" "heap (disk m) = []" "stdout (disk m) = []"
  by (simp_all add: disk_def)

lemma mem_load_disk [simp]: "mem_load ''Top.stl'' [(''Top.stl'', m)] = Inr m"
  by (simp add: mem_load_def)

lemma mem_bounds_unit_cube:
  "mem_bounds unit_cube = Some ((Fin 0, Fin 0, Fin 0), (Fin 1, Fin 1, Fin 1))"
  by (simp add: mem_bounds_def unit_cube_def vtx_def py_min_def py_max_def)

lemma mem_bounds_flat_triangle:
  "mem_bounds flat_triangle = Some ((Fin 0, Fin 0, Fin 0), (Fin 1, Fin 1, Fin 0))"
  by (simp add: mem_bounds_def flat_triangle_def vtx_def py_min_def py_max_def)

lemma unit_extent: "fsub A (Fin 1) (Fin 0) = Fin 1"
  by (cases A) (simp_all add: fsub_def round64_small_integers)

section \<open>Properties of make\_hollow\<close>

text \<open>
  C1. Take a mesh whose three bounding-box extents are finite, and let \<open>d\<close> be the
  smallest of them, positive. Then \<open>min_dim\<close> is \<open>d\<close>, the raw scale factor is
  \<open>(d - 2 * wall_thickness) / d\<close> computed in the arithmetic, and the scale factor
  that the call prints and applies to the inner shell is the raw factor
  clamped: a finite raw factor \<open>x\<close> gives \<open>max lo (min x hi)\<close>, where \<open>lo\<close> and
  \<open>hi\<close> are the literals 0.7 and 0.95. In exact arithmetic the raw factor is the
  rational \<open>(d - 2 t) / d\<close>. For \<open>d = 1\<close> the scale factor is the literal 0.8 at
  wall thickness 0.1, the literal 0.7 at 0.3 and the literal 0.95 at 0.001, in
  exact arithmetic and in double precision alike.
\<close>

theorem scale_factor_raw_then_clamped:
  assumes ld: "load_mesh L inp (fs w) = Inr m"
    and bd: "bounds L m = Some ((lx, ly, lz), (hx, hy, hz))"
    and ex: "fsub A hx lx = Fin a" "fsub A hy ly = Fin b" "fsub A hz lz = Fin c"
    and d: "d = min (min a b) c"
    and pos: "0 < d"
    and raw: "raw = raw_scale_factor A ((lx, ly, lz), (hx, hy, hz)) wt"
  shows "min_of (vsub A (hx, hy, hz) (lx, ly, lz)) = Fin d \<and>
         raw = fdiv A (fsub A (Fin d) (fmul A (Fin 2) wt)) (Fin d) \<and>
         Scale_factor (clamp_scale_factor A raw)
           \<in> set (stdout (snd (make_hollow A L inp out wt w))) \<and>
         heap (snd (make_hollow A L inp out wt w)) ! Suc (length (heap w)) =
           inner_shell A L m (clamp_scale_factor A raw) \<and>
         (\<forall>x lo hi. raw = Fin x \<and> rnd A (7 / 10) = Fin lo \<and> rnd A (19 / 20) = Fin hi \<longrightarrow>
            clamp_scale_factor A raw = Fin (max lo (min x hi))) \<and>
         (\<forall>t. A = Exact \<and> wt = Fin t \<longrightarrow>
            raw = Fin ((d - 2 * t) / d) \<and>
            clamp_scale_factor A raw = Fin (max (7 / 10) (min ((d - 2 * t) / d) (19 / 20)))) \<and>
         (d = 1 \<and> wt = rnd A (1 / 10) \<longrightarrow> clamp_scale_factor A raw = rnd A (8 / 10)) \<and>
         (d = 1 \<and> wt = rnd A (3 / 10) \<longrightarrow> clamp_scale_factor A raw = rnd A (7 / 10)) \<and>
         (d = 1 \<and> wt = rnd A (1 / 1000) \<longrightarrow> clamp_scale_factor A raw = rnd A (95 / 100))"
proof -
  have md: "min_of (vsub A (hx, hy, hz) (lx, ly, lz)) = Fin d"
    by (simp only: vsub.simps ex min_of_finite d)
  have r: "raw = fdiv A (fsub A (Fin d) (fmul A (Fin 2) wt)) (Fin d)"
    by (simp only: raw raw_scale_factor_min_dim [OF md])
  have s: "clamp_scale_factor A raw =
             clamp_scale_factor A (raw_scale_factor A ((lx, ly, lz), (hx, hy, hz)) wt)"
    by (simp only: raw)
  note run = make_hollow_run [OF ld bd s, of out]
  have p: "Scale_factor (clamp_scale_factor A raw)
             \<in> set (stdout (snd (make_hollow A L inp out wt w)))"
    by (simp add: run(4))
  have h: "heap (snd (make_hollow A L inp out wt w)) ! Suc (length (heap w)) =
             inner_shell A L m (clamp_scale_factor A raw)"
    by (simp add: run(3) nth_append)
  have c: "\<forall>x lo hi. raw = Fin x \<and> rnd A (7 / 10) = Fin lo \<and> rnd A (19 / 20) = Fin hi \<longrightarrow>
            clamp_scale_factor A raw = Fin (max lo (min x hi))"
    by (auto simp: clamp_scale_factor_Fin)
  have e: "\<forall>t. A = Exact \<and> wt = Fin t \<longrightarrow>
            raw = Fin ((d - 2 * t) / d) \<and>
            clamp_scale_factor A raw = Fin (max (7 / 10) (min ((d - 2 * t) / d) (19 / 20)))"
  proof (intro allI impI)
    fix t
    assume a: "A = Exact \<and> wt = Fin t"
    from pos have nz: "d \<noteq> 0" by simp
    from a md have mde: "min_of (vsub Exact (hx, hy, hz) (lx, ly, lz)) = Fin d" by simp
    have x: "raw = Fin ((d - 2 * t) / d)"
      using a by (simp only: raw raw_scale_factor_exact [OF mde nz])
    have "clamp_scale_factor Exact (Fin ((d - 2 * t) / d)) =
            Fin (max (7 / 10) (min ((d - 2 * t) / d) (19 / 20)))"
      by (rule clamp_scale_factor_Fin) simp_all
    with a x show "raw = Fin ((d - 2 * t) / d) \<and>
            clamp_scale_factor A raw = Fin (max (7 / 10) (min ((d - 2 * t) / d) (19 / 20)))"
      by simp
  qed
  have u1: "d = 1 \<and> wt = rnd A (1 / 10) \<longrightarrow> clamp_scale_factor A raw = rnd A (8 / 10)"
    by (auto simp only: r unit_scale_factors)
  have u2: "d = 1 \<and> wt = rnd A (3 / 10) \<longrightarrow> clamp_scale_factor A raw = rnd A (7 / 10)"
    by (auto simp only: r unit_scale_factors)
  have u3: "d = 1 \<and> wt = rnd A (1 / 1000) \<longrightarrow> clamp_scale_factor A raw = rnd A (95 / 100)"
    by (auto simp only: r unit_scale_factors)
  from md r p h c e u1 u2 u3 show ?thesis by blast
qed

text \<open>The unit cube, loaded from a file and hollowed in double precision at the
  three wall thicknesses.\<close>

theorem scale_factor_raw_then_clamped_witness:
  "Scale_factor (round64 (8 / 10))
     \<in> set (stdout (snd (make_hollow Binary64 (mem_lib Binary64) ''Top.stl'' ''Top.stl''
                           (round64 (1 / 10)) (disk unit_cube)))) \<and>
   Scale_factor (round64 (7 / 10))
     \<in> set (stdout (snd (make_hollow Binary64 (mem_lib Binary64) ''Top.stl'' ''Top.stl''
                           (round64 (3 / 10)) (disk unit_cube)))) \<and>
   Scale_factor (round64 (95 / 100))
     \<in> set (stdout (snd (make_hollow Binary64 (mem_lib Binary64) ''Top.stl'' ''Top.stl''
                           (round64 (1 / 1000)) (disk unit_cube))))"
proof -
  have ld: "load_mesh (mem_lib Binary64) ''Top.stl'' (fs (disk unit_cube)) = Inr unit_cube"
    by simp
  have bd: "bounds (mem_lib Binary64) unit_cube =
              Some ((Fin 0, Fin 0, Fin 0), (Fin 1, Fin 1, Fin 1))"
    by (simp add: mem_bounds_unit_cube)
  have d: "(1::rat) = min (min 1 1) 1" and pos: "(0::rat) < 1"
    by simp_all
  note t = scale_factor_raw_then_clamped
             [where A = Binary64 and out = "''Top.stl''",
              OF ld bd unit_extent unit_extent unit_extent d pos refl]
  let ?r1 = "raw_scale_factor Binary64 ((Fin 0, Fin 0, Fin 0), (Fin 1, Fin 1, Fin 1))
               (round64 (1 / 10))"
  from t [where wt = "round64 (1 / 10)"]
  have p1: "Scale_factor (clamp_scale_factor Binary64 ?r1)
     \<in> set (stdout (snd (make_hollow Binary64 (mem_lib Binary64) ''Top.stl'' ''Top.stl''
                           (round64 (1 / 10)) (disk unit_cube))))"
    and u1: "(1::rat) = 1 \<and> round64 (1 / 10) = rnd Binary64 (1 / 10) \<longrightarrow>
           clamp_scale_factor Binary64 ?r1 = rnd Binary64 (8 / 10)"
    by blast+
  from u1 have e1: "clamp_scale_factor Binary64 ?r1 = round64 (8 / 10)"
    by simp
  have a: "Scale_factor (round64 (8 / 10))
     \<in> set (stdout (snd (make_hollow Binary64 (mem_lib Binary64) ''Top.stl'' ''Top.stl''
                           (round64 (1 / 10)) (disk unit_cube))))"
    using p1 unfolding e1 .
  let ?r2 = "raw_scale_factor Binary64 ((Fin 0, Fin 0, Fin 0), (Fin 1, Fin 1, Fin 1))
               (round64 (3 / 10))"
  from t [where wt = "round64 (3 / 10)"]
  have p2: "Scale_factor (clamp_scale_factor Binary64 ?r2)
     \<in> set (stdout (snd (make_hollow Binary64 (mem_lib Binary64) ''Top.stl'' ''Top.stl''
                           (round64 (3 / 10)) (disk unit_cube))))"
    and u2: "(1::rat) = 1 \<and> round64 (3 / 10) = rnd Binary64 (3 / 10) \<longrightarrow>
           clamp_scale_factor Binary64 ?r2 = rnd Binary64 (7 / 10)"
    by blast+
  from u2 have e2: "clamp_scale_factor Binary64 ?r2 = round64 (7 / 10)"
    by simp
  have b: "Scale_factor (round64 (7 / 10))
     \<in> set (stdout (snd (make_hollow Binary64 (mem_lib Binary64) ''Top.stl'' ''Top.stl''
                           (round64 (3 / 10)) (disk unit_cube))))"
    using p2 unfolding e2 .
  let ?r3 = "raw_scale_factor Binary64 ((Fin 0, Fin 0, Fin 0), (Fin 1, Fin 1, Fin 1))
               (round64 (1 / 1000))"
  from t [where wt = "round64 (1 / 1000)"]
  have p3: "Scale_factor (clamp_scale_factor Binary64 ?r3)
     \<in> set (stdout (snd (make_hollow Binary64 (mem_lib Binary64) ''Top.stl'' ''Top.stl''
                           (round64 (1 / 1000)) (disk unit_cube))))"
    and u3: "(1::rat) = 1 \<and> round64 (1 / 1000) = rnd Binary64 (1 / 1000) \<longrightarrow>
           clamp_scale_factor Binary64 ?r3 = rnd Binary64 (95 / 100)"
    by blast+
  from u3 have e3: "clamp_scale_factor Binary64 ?r3 = round64 (95 / 100)"
    by simp
  have c: "Scale_factor (round64 (95 / 100))
     \<in> set (stdout (snd (make_hollow Binary64 (mem_lib Binary64) ''Top.stl'' ''Top.stl''
                           (round64 (1 / 1000)) (disk unit_cube))))"
    using p3 unfolding e3 .
  from a b c show ?thesis by blast
qed

lemma scale_about_exact:
  "scale_about Exact (vtx cx cy cz) (Fin s) (vtx x y z) =
     vtx ((x - cx) * s + cx) ((y - cy) * s + cy) ((z - cz) * s + cz)"
  by (simp add: scale_about_def vtx_def fsub_def)

lemma shrink_offset:
  fixes s :: rat
  assumes "0 < s" and "s < 1"
  shows "\<bar>((x - c) * s + c) - c\<bar> \<le> \<bar>x - c\<bar>"
    and "x \<noteq> c \<Longrightarrow> \<bar>((x - c) * s + c) - c\<bar> < \<bar>x - c\<bar>"
    and "x \<noteq> c \<Longrightarrow> (x - c) * s + c \<noteq> c"
    and "0 \<le> (x - c) * (((x - c) * s + c) - c)"
proof -
  note s0 = assms(1) and s1 = assms(2)
  have e: "\<bar>((x - c) * s + c) - c\<bar> = \<bar>x - c\<bar> * s"
    using s0 by (simp add: abs_mult)
  show "\<bar>((x - c) * s + c) - c\<bar> \<le> \<bar>x - c\<bar>"
    unfolding e using s1 by (simp add: mult_left_le)
  show "\<bar>((x - c) * s + c) - c\<bar> < \<bar>x - c\<bar>" if "x \<noteq> c"
    unfolding e using s1 that by simp
  show "(x - c) * s + c \<noteq> c" if "x \<noteq> c"
    using s0 that by auto
  have "(x - c) * (((x - c) * s + c) - c) = ((x - c) * (x - c)) * s"
    by simp
  moreover have "0 \<le> ((x - c) * (x - c)) * s"
    using s0 by (intro mult_nonneg_nonneg zero_le_square) simp
  ultimately show "0 \<le> (x - c) * (((x - c) * s + c) - c)"
    by simp
qed

lemma heap3_nth:
  "(h @ [a, b, c]) ! length h = a"
  "(h @ [a, b, c]) ! Suc (length h) = b"
  "(h @ [a, b, c]) ! Suc (Suc (length h)) = c"
  by (simp_all add: nth_append)



lemma tiny_order [simp]:
  "\<not> above_one < below_one" "below_one < above_one"
  by (simp_all add: below_one_def above_one_def)

lemma mem_bounds_tiny_tetrahedron:
  "mem_bounds tiny_tetrahedron =
     Some ((Fin below_one, Fin below_one, Fin below_one),
           (Fin above_one, Fin above_one, Fin above_one))"
  by (simp add: mem_bounds_def tiny_tetrahedron_def vtx_def py_min_def py_max_def)

lemma tiny_extent: "fsub Binary64 (Fin above_one) (Fin below_one) = Fin (3 / 2 ^ 53)"
  by (simp add: fsub_def below_one_def above_one_def r64)

lemma tiny_scale:
  "clamp_scale_factor Binary64
     (fdiv Binary64 (fsub Binary64 (Fin (3 / 2 ^ 53)) (fmul Binary64 (Fin 2) (Fin 2)))
        (Fin (3 / 2 ^ 53))) = round64 (7 / 10)"
  by (simp add: clamp_scale_factor_def py_max_def py_min_def fsub_def r64)

lemma mem_centroid_tiny_tetrahedron:
  "mem_centroid Binary64 tiny_tetrahedron = vtx 1 1 1"
  by (simp add: mem_centroid_def tiny_tetrahedron_def vtx_def below_one_def above_one_def r64)

lemma tiny_coordinates:
  "fadd Binary64 (fmul Binary64 (fsub Binary64 (Fin below_one) (Fin 1)) (round64 (7 / 10)))
     (Fin 1) = Fin below_one"
  "fadd Binary64 (fmul Binary64 (fsub Binary64 (Fin above_one) (Fin 1)) (round64 (7 / 10)))
     (Fin 1) = Fin above_one"
  by (simp_all add: fsub_def below_one_def above_one_def r64)


lemma flat_extents:
  "min_of (vsub A (Fin 1, Fin 1, Fin 0) (Fin 0, Fin 0, Fin 0)) = Fin 0"
  by (cases A) (simp_all add: fsub_def py_min_def round64_small_integers)

lemma divide_by_zero:
  "fdiv A n (Fin 0) = PInf \<or> fdiv A n (Fin 0) = NInf \<or> fdiv A n (Fin 0) = NaN"
  by (cases n) simp_all

text \<open>
  C6, as the code behaves. A mesh whose smallest bounding-box extent is zero is
  not rejected. The division by zero raises nothing: the raw factor is an
  infinity or nan. The clamp turns \<open>+inf\<close> into the literal 0.95 and \<open>-inf\<close>
  and nan into the literal 0.7, and the call goes on to export the combined mesh
  built with that factor. In exact arithmetic the raw factor is \<open>+inf\<close> for a
  negative wall thickness, \<open>-inf\<close> for a positive one and nan for zero.
\<close>

theorem zero_extent_not_rejected:
  assumes ld: "load_mesh L inp (fs w) = Inr m"
    and bd: "bounds L m = Some (lo, hi)"
    and md: "min_of (vsub A hi lo) = Fin 0"
    and raw: "raw = raw_scale_factor A (lo, hi) wt"
  shows "raw = fdiv A (fsub A (Fin 0) (fmul A (Fin 2) wt)) (Fin 0) \<and>
         (raw = PInf \<or> raw = NInf \<or> raw = NaN) \<and>
         clamp_scale_factor A raw = (if raw = PInf then rnd A (19 / 20) else rnd A (7 / 10)) \<and>
         fst (make_hollow A L inp out wt w) =
           fst (export L (hollow_shell A L m (clamp_scale_factor A raw)) out (fs w)) \<and>
         fs (snd (make_hollow A L inp out wt w)) =
           snd (export L (hollow_shell A L m (clamp_scale_factor A raw)) out (fs w)) \<and>
         (\<forall>t. A = Exact \<and> wt = Fin t \<longrightarrow>
            raw = (if t < 0 then PInf else if 0 < t then NInf else NaN) \<and>
            clamp_scale_factor A raw = Fin (if t < 0 then 19 / 20 else 7 / 10))"
proof -
  obtain l h where l: "rnd A (7 / 10) = Fin l" and h: "rnd A (19 / 20) = Fin h"
    and lh: "l < h"
    using literals_finite by blast
  from lh have le: "l \<le> h" by simp
  have r: "raw = fdiv A (fsub A (Fin 0) (fmul A (Fin 2) wt)) (Fin 0)"
    by (simp only: raw raw_scale_factor_min_dim [OF md])
  have k: "raw = PInf \<or> raw = NInf \<or> raw = NaN"
    unfolding r by (rule divide_by_zero)
  have c: "clamp_scale_factor A raw = (if raw = PInf then rnd A (19 / 20) else rnd A (7 / 10))"
    using k by (auto simp add: clamp_scale_factor_special [OF l h le] l h)
  have s: "clamp_scale_factor A raw = clamp_scale_factor A (raw_scale_factor A (lo, hi) wt)"
    by (simp only: raw)
  note run = make_hollow_run [OF ld bd s, of out]
  have e: "\<forall>t. A = Exact \<and> wt = Fin t \<longrightarrow>
            raw = (if t < 0 then PInf else if 0 < t then NInf else NaN) \<and>
            clamp_scale_factor A raw = Fin (if t < 0 then 19 / 20 else 7 / 10)"
  proof (intro allI impI)
    fix t
    assume a: "A = Exact \<and> wt = Fin t"
    have x: "raw = (if t < 0 then PInf else if 0 < t then NInf else NaN)"
      using a by (simp add: r fsub_def)
    have c': "clamp_scale_factor A raw = (if raw = PInf then Fin (19 / 20) else Fin (7 / 10))"
      using a c by simp
    have "clamp_scale_factor A raw = Fin (if t < 0 then 19 / 20 else 7 / 10)"
      by (subst c') (simp add: x)
    with x show "raw = (if t < 0 then PInf else if 0 < t then NInf else NaN) \<and>
            clamp_scale_factor A raw = Fin (if t < 0 then 19 / 20 else 7 / 10)"
      by blast
  qed
  from r k c run(1) run(2) e show ?thesis by blast
qed

text \<open>A single triangle in the plane \<open>z = 0\<close> with the default wall thickness 2, in
  double precision.\<close>

theorem zero_extent_not_rejected_witness:
  "raw_scale_factor Binary64 ((Fin 0, Fin 0, Fin 0), (Fin 1, Fin 1, Fin 0)) (Fin 2) = NInf \<and>
   fst (make_hollow Binary64 (mem_lib Binary64) ''Top.stl'' ''Top.stl'' (Fin 2)
          (disk flat_triangle)) = None"
proof -
  let ?raw = "raw_scale_factor Binary64 ((Fin 0, Fin 0, Fin 0), (Fin 1, Fin 1, Fin 0)) (Fin 2)"
  have ld: "load_mesh (mem_lib Binary64) ''Top.stl'' (fs (disk flat_triangle)) =
              Inr flat_triangle"
    by simp
  have bd: "bounds (mem_lib Binary64) flat_triangle =
              Some ((Fin 0, Fin 0, Fin 0), (Fin 1, Fin 1, Fin 0))"
    by (simp add: mem_bounds_flat_triangle)
  note t = zero_extent_not_rejected [where out = "''Top.stl''", OF ld bd flat_extents refl]
  from t have "?raw = fdiv Binary64 (fsub Binary64 (Fin 0) (fmul Binary64 (Fin 2) (Fin 2))) (Fin 0)"
    by blast
  then have a: "?raw = NInf"
    by (simp add: fsub_def round64_small_integers)
  from t have "fst (make_hollow Binary64 (mem_lib Binary64) ''Top.stl'' ''Top.stl'' (Fin 2)
                      (disk flat_triangle)) =
               fst (export (mem_lib Binary64)
                      (hollow_shell Binary64 (mem_lib Binary64) flat_triangle
                         (clamp_scale_factor Binary64 ?raw)) ''Top.stl''
                      (fs (disk flat_triangle)))"
    by blast
  then have b: "fst (make_hollow Binary64 (mem_lib Binary64) ''Top.stl'' ''Top.stl'' (Fin 2)
                       (disk flat_triangle)) = None"
    by (simp add: mem_export_def)
  from a b show ?thesis by blast
qed

text \<open>
  The flat triangle is hollowed and written to the output path; no exception is
  raised.
\<close>

theorem zero_extent_rejected_counterexample:
  "bounds (mem_lib Binary64) flat_triangle =
     Some ((Fin 0, Fin 0, Fin 0), (Fin 1, Fin 1, Fin 0)) \<and>
   min_of (vsub Binary64 (Fin 1, Fin 1, Fin 0) (Fin 0, Fin 0, Fin 0)) = Fin 0 \<and>
   fst (make_hollow Binary64 (mem_lib Binary64) ''Top.stl'' ''Top.stl'' (Fin 2)
          (disk flat_triangle)) = None \<and>
   map_of (fs (snd (make_hollow Binary64 (mem_lib Binary64) ''Top.stl'' ''Top.stl'' (Fin 2)
                      (disk flat_triangle)))) ''Top.stl'' =
     Some (hollow_shell Binary64 (mem_lib Binary64) flat_triangle (round64 (7 / 10)))"
proof -
  let ?b = "((Fin 0, Fin 0, Fin 0), (Fin 1, Fin 1, Fin 0))"
  have ld: "load_mesh (mem_lib Binary64) ''Top.stl'' (fs (disk flat_triangle)) =
              Inr flat_triangle"
    by simp
  have bd: "bounds (mem_lib Binary64) flat_triangle = Some ?b"
    by (simp add: mem_bounds_flat_triangle)
  have md: "min_of (vsub Binary64 (Fin 1, Fin 1, Fin 0) (Fin 0, Fin 0, Fin 0)) = Fin 0"
    by (rule flat_extents)
  have "raw_scale_factor Binary64 ?b (Fin 2) = NInf"
    by (simp add: raw_scale_factor_min_dim [OF md] fsub_def round64_small_integers)
  then have cl: "round64 (7 / 10) =
      clamp_scale_factor Binary64 (raw_scale_factor Binary64 ?b (Fin 2))"
    by (simp add: clamp_scale_factor_def py_min_def py_max_def round64_literals)
  note run = make_hollow_run [OF ld bd cl, of "''Top.stl''"]
  have r: "fst (make_hollow Binary64 (mem_lib Binary64) ''Top.stl'' ''Top.stl'' (Fin 2)
                  (disk flat_triangle)) = None"
    by (simp add: run(1) mem_export_def)
  have f: "map_of (fs (snd (make_hollow Binary64 (mem_lib Binary64) ''Top.stl'' ''Top.stl''
                              (Fin 2) (disk flat_triangle)))) ''Top.stl'' =
             Some (hollow_shell Binary64 (mem_lib Binary64) flat_triangle (round64 (7 / 10)))"
    by (simp add: run(2) mem_export_def)
  from bd md r f show ?thesis by blast
qed

lemma hollow_shell_parts:
  "vertices (hollow_shell A L m s) = vertices m @ vertices (inner_shell A L m s)"
  "faces (hollow_shell A L m s) =
     faces m @ map (offset_face (length (vertices m))) (faces (inner_shell A L m s))"
  by (simp_all add: hollow_shell_def)

lemma inner_shell_lengths:
  "length (vertices (inner_shell A L m s)) = length (vertices m)"
  "length (faces (inner_shell A L m s)) = length (faces m)"
  by (simp_all add: inner_shell_def fliplr_def)

text \<open>
  C2. The combined mesh has the vertices of the loaded mesh followed by those of
  the inner mesh: vertex \<open>k\<close> is vertex \<open>k\<close> of the loaded mesh and vertex
  \<open>nv + k\<close> is vertex \<open>k\<close> of the inner mesh, where \<open>nv\<close> is the number of
  original vertices. Its faces are the faces of the loaded mesh followed by the
  faces of the inner mesh: face \<open>j\<close> is face \<open>j\<close> of the loaded mesh, and face
  \<open>nf + j\<close> is face \<open>j\<close> of the inner mesh with each of its three indices
  raised by \<open>nv\<close>. Nothing is merged: there are exactly twice the vertices and
  twice the faces of the input. This is the mesh handed to the export.
\<close>

theorem hollow_mesh_is_exact_concatenation:
  assumes ld: "load_mesh L inp (fs w) = Inr m"
    and bd: "bounds L m = Some b"
    and inner: "inner = heap (snd (make_hollow A L inp out wt w)) ! Suc (length (heap w))"
    and hollow: "H = heap (snd (make_hollow A L inp out wt w)) ! Suc (Suc (length (heap w)))"
  shows "vertices H = vertices m @ vertices inner \<and>
         length (vertices inner) = length (vertices m) \<and>
         length (faces inner) = length (faces m) \<and>
         length (vertices H) = 2 * length (vertices m) \<and>
         length (faces H) = 2 * length (faces m) \<and>
         (\<forall>k. k < length (vertices m) \<longrightarrow>
              vertices H ! k = vertices m ! k \<and>
              vertices H ! (length (vertices m) + k) = vertices inner ! k) \<and>
         (\<forall>j p q r. j < length (faces m) \<and> faces inner ! j = (p, q, r) \<longrightarrow>
              faces H ! j = faces m ! j \<and>
              faces H ! (length (faces m) + j) =
                (p + length (vertices m), q + length (vertices m), r + length (vertices m))) \<and>
         export L H out (fs w) =
           (fst (make_hollow A L inp out wt w), fs (snd (make_hollow A L inp out wt w)))"
proof -
  define s where "s = clamp_scale_factor A (raw_scale_factor A b wt)"
  note run = make_hollow_run [OF ld bd s_def, of out]
  have i: "inner = inner_shell A L m s"
    by (simp only: inner run(3) heap3_nth)
  have h: "H = hollow_shell A L m s"
    by (simp only: hollow run(3) heap3_nth)
  have v: "vertices H = vertices m @ vertices inner"
    by (simp only: h i hollow_shell_parts)
  have f: "faces H = faces m @ map (offset_face (length (vertices m))) (faces inner)"
    by (simp only: h i hollow_shell_parts)
  have li: "length (vertices inner) = length (vertices m)"
    and lfi: "length (faces inner) = length (faces m)"
    by (simp_all only: i inner_shell_lengths)
  have lv: "length (vertices H) = 2 * length (vertices m)"
    by (simp add: v li)
  have lf: "length (faces H) = 2 * length (faces m)"
    by (simp add: f lfi)
  have vk: "\<forall>k. k < length (vertices m) \<longrightarrow>
              vertices H ! k = vertices m ! k \<and>
              vertices H ! (length (vertices m) + k) = vertices inner ! k"
    by (simp add: v nth_append)
  have fj: "\<forall>j p q r. j < length (faces m) \<and> faces inner ! j = (p, q, r) \<longrightarrow>
              faces H ! j = faces m ! j \<and>
              faces H ! (length (faces m) + j) =
                (p + length (vertices m), q + length (vertices m), r + length (vertices m))"
    by (simp add: f nth_append lfi)
  have e: "export L H out (fs w) =
           (fst (make_hollow A L inp out wt w), fs (snd (make_hollow A L inp out wt w)))"
    by (simp add: h run(1) run(2))
  from v li lfi lv lf vk fj e show ?thesis by blast
qed

text \<open>
  The unit cube: 8 vertices and 12 faces in, 16 and 24 out; face 1 of the inner
  mesh, \<open>(2, 3, 0)\<close>, is face 13 of the combined mesh, \<open>(10, 11, 8)\<close>.
\<close>

theorem hollow_mesh_is_exact_concatenation_witness:
  "length (vertices (heap (snd (make_hollow Exact (mem_lib Exact) ''Top.stl'' ''Top.stl'' (Fin 2)
                                  (disk unit_cube))) ! Suc (Suc 0))) = 16 \<and>
   length (faces (heap (snd (make_hollow Exact (mem_lib Exact) ''Top.stl'' ''Top.stl'' (Fin 2)
                               (disk unit_cube))) ! Suc (Suc 0))) = 24 \<and>
   faces (heap (snd (make_hollow Exact (mem_lib Exact) ''Top.stl'' ''Top.stl'' (Fin 2)
                       (disk unit_cube))) ! Suc 0) ! 1 = (2, 3, 0) \<and>
   faces (heap (snd (make_hollow Exact (mem_lib Exact) ''Top.stl'' ''Top.stl'' (Fin 2)
                       (disk unit_cube))) ! Suc (Suc 0)) ! 13 = (10, 11, 8)"
proof -
  let ?w = "snd (make_hollow Exact (mem_lib Exact) ''Top.stl'' ''Top.stl'' (Fin 2)
                  (disk unit_cube))"
  have ld: "load_mesh (mem_lib Exact) ''Top.stl'' (fs (disk unit_cube)) = Inr unit_cube"
    by simp
  have bd: "bounds (mem_lib Exact) unit_cube = Some ((Fin 0, Fin 0, Fin 0), (Fin 1, Fin 1, Fin 1))"
    by (simp add: mem_bounds_unit_cube)
  have l: "length (vertices unit_cube) = 8" "length (faces unit_cube) = 12"
    by (simp_all add: unit_cube_def)
  have ie: "heap ?w ! Suc 0 = heap ?w ! Suc (length (heap (disk unit_cube)))"
    and he: "heap ?w ! Suc (Suc 0) = heap ?w ! Suc (Suc (length (heap (disk unit_cube))))"
    by simp_all
  have "faces (heap ?w ! Suc 0) = fliplr (faces unit_cube)"
    by (simp add: make_hollow_run(3) [OF ld bd refl] inner_shell_def)
  then have i1: "faces (heap ?w ! Suc 0) ! 1 = (2, 3, 0)"
    by (simp add: fliplr_def unit_cube_def)
  note t = hollow_mesh_is_exact_concatenation [OF ld bd ie he]
  from t have a: "length (vertices (heap ?w ! Suc (Suc 0))) = 2 * length (vertices unit_cube)"
    by blast
  from t have b: "length (faces (heap ?w ! Suc (Suc 0))) = 2 * length (faces unit_cube)"
    by blast
  from t have "1 < length (faces unit_cube) \<and> faces (heap ?w ! Suc 0) ! 1 = (2, 3, 0) \<longrightarrow>
      faces (heap ?w ! Suc (Suc 0)) ! (length (faces unit_cube) + 1) =
        (2 + length (vertices unit_cube), 3 + length (vertices unit_cube),
         0 + length (vertices unit_cube))"
    by blast
  with i1 have c: "faces (heap ?w ! Suc (Suc 0)) ! 13 = (10, 11, 8)"
    by (simp add: l)
  from a b i1 c show ?thesis
    by (simp add: l)
qed

text \<open>
  C3. Face \<open>i\<close> of the inner mesh lists the three indices of face \<open>i\<close> of the
  loaded mesh in reverse order, so it uses the same vertex indices. In the
  combined mesh the original face stays as it is and the reversed face follows at
  position \<open>length (faces m) + i\<close>, shifted by the number of original vertices.
\<close>

theorem inner_faces_reversed:
  assumes ld: "load_mesh L inp (fs w) = Inr m"
    and bd: "bounds L m = Some b"
    and inner: "inner = heap (snd (make_hollow A L inp out wt w)) ! Suc (length (heap w))"
    and hollow: "H = heap (snd (make_hollow A L inp out wt w)) ! Suc (Suc (length (heap w)))"
    and i: "i < length (faces m)"
    and f: "faces m ! i = (p, q, r)"
  shows "length (faces inner) = length (faces m) \<and>
         faces inner ! i = (r, q, p) \<and>
         face_indices (faces inner ! i) = face_indices (faces m ! i) \<and>
         faces H ! i = (p, q, r) \<and>
         faces H ! (length (faces m) + i) =
           (r + length (vertices m), q + length (vertices m), p + length (vertices m))"
proof -
  define s where "s = clamp_scale_factor A (raw_scale_factor A b wt)"
  note run = make_hollow_run [OF ld bd s_def, of out]
  have ie: "inner = inner_shell A L m s"
    by (simp only: inner run(3) heap3_nth)
  have he: "H = hollow_shell A L m s"
    by (simp only: hollow run(3) heap3_nth)
  have fi: "faces inner = map flip_row (faces m)"
    by (simp add: ie inner_shell_def fliplr_def)
  have l: "length (faces inner) = length (faces m)"
    by (simp add: fi)
  have a: "faces inner ! i = (r, q, p)"
    using i f by (simp add: fi)
  have s: "face_indices (faces inner ! i) = face_indices (faces m ! i)"
    by (auto simp add: a f)
  have fh: "faces H = faces m @ map (offset_face (length (vertices m))) (faces inner)"
    by (simp only: he ie hollow_shell_parts)
  have o: "faces H ! i = (p, q, r)"
    using i f by (simp add: fh nth_append)
  have n: "faces H ! (length (faces m) + i) =
           (r + length (vertices m), q + length (vertices m), p + length (vertices m))"
    using i a l by (simp add: fh nth_append)
  from l a s o n show ?thesis by blast
qed

text \<open>
  Face 0 of the unit cube, \<open>(0, 2, 1)\<close>, becomes \<open>(1, 2, 0)\<close> in the inner mesh.
\<close>

theorem inner_faces_reversed_witness:
  "faces (heap (snd (make_hollow Exact (mem_lib Exact) ''Top.stl'' ''Top.stl'' (Fin 2)
                       (disk unit_cube))) ! Suc 0) ! 0 = (1, 2, 0) \<and>
   faces (heap (snd (make_hollow Exact (mem_lib Exact) ''Top.stl'' ''Top.stl'' (Fin 2)
                       (disk unit_cube))) ! Suc (Suc 0)) ! 12 = (9, 10, 8)"
proof -
  have ld: "load_mesh (mem_lib Exact) ''Top.stl'' (fs (disk unit_cube)) = Inr unit_cube"
    by simp
  have bd: "bounds (mem_lib Exact) unit_cube = Some ((Fin 0, Fin 0, Fin 0), (Fin 1, Fin 1, Fin 1))"
    by (simp add: mem_bounds_unit_cube)
  have i: "0 < length (faces unit_cube)" and f: "faces unit_cube ! 0 = (0, 2, 1)"
    and l: "length (faces unit_cube) = 12" "length (vertices unit_cube) = 8"
    by (simp_all add: unit_cube_def)
  note t = inner_faces_reversed
             [where A = Exact and out = "''Top.stl''" and wt = "Fin 2", OF ld bd refl refl i f]
  from t have "faces (heap (snd (make_hollow Exact (mem_lib Exact) ''Top.stl'' ''Top.stl'' (Fin 2)
                 (disk unit_cube))) ! Suc (length (heap (disk unit_cube)))) ! 0 = (1, 2, 0)"
    by blast
  moreover from t have "faces (heap (snd (make_hollow Exact (mem_lib Exact) ''Top.stl'' ''Top.stl'' (Fin 2)
                 (disk unit_cube))) ! Suc (Suc (length (heap (disk unit_cube))))) !
                 (length (faces unit_cube) + 0) =
               (1 + length (vertices unit_cube), 2 + length (vertices unit_cube),
                0 + length (vertices unit_cube))"
    by blast
  ultimately show ?thesis
    by (simp add: l)
qed

lemma roundtrip_exact:
  assumes "s \<noteq> 0"
  shows "vadd Exact (vdiv Exact (vsub Exact (scale_about Exact (vtx cx cy cz) (Fin s) (vtx x y z))
                       (vtx cx cy cz)) (Fin s)) (vtx cx cy cz) = vtx x y z"
  using assms by (simp add: scale_about_def vtx_def fsub_def)

lemma min_of_unit:
  "min_of (vsub Exact (Fin 1, Fin 1, Fin 1) (Fin 0, Fin 0, Fin 0)) = Fin 1"
  by (simp add: fsub_def py_min_def)


lemma mem_centroid_unit_cube: "mem_centroid Exact unit_cube = vtx (1 / 2) (1 / 2) (1 / 2)"
  by (simp add: mem_centroid_def unit_cube_def vtx_def)


text \<open>
  C7. The objects that existed before the call are untouched, and the loaded mesh
  object still holds the vertices and faces it was loaded with when the call ends,
  whether it ends normally or with an exception after loading. The scaled
  vertices and reversed faces are in the copy, a different object.
\<close>

theorem original_mesh_not_mutated:
  assumes ld: "load_mesh L inp (fs w) = Inr m"
  shows "take (length (heap w)) (heap (snd (make_hollow A L inp out wt w))) = heap w \<and>
         heap (snd (make_hollow A L inp out wt w)) ! length (heap w) = m \<and>
         (\<forall>b. bounds L m = Some b \<longrightarrow>
              heap (snd (make_hollow A L inp out wt w)) ! Suc (length (heap w)) =
                inner_shell A L m (clamp_scale_factor A (raw_scale_factor A b wt)))"
proof (cases "bounds L m")
  case None
  have "heap (snd (make_hollow A L inp out wt w)) = heap w @ [m]"
    by (rule make_hollow_bounds_fail(3) [OF ld None])
  then show ?thesis
    using None by simp
next
  case (Some b)
  have "heap (snd (make_hollow A L inp out wt w)) =
          heap w @ [m, inner_shell A L m (clamp_scale_factor A (raw_scale_factor A b wt)),
                    hollow_shell A L m (clamp_scale_factor A (raw_scale_factor A b wt))]"
    by (rule make_hollow_run(3) [OF ld Some refl])
  then show ?thesis
    using Some by (simp add: heap3_nth)
qed

text \<open>
  The unit cube: object 0 is the cube as loaded, object 1 has the reversed faces.
\<close>

theorem original_mesh_not_mutated_witness:
  "heap (snd (make_hollow Exact (mem_lib Exact) ''Top.stl'' ''Top.stl'' (Fin 2) (disk unit_cube))) ! 0 =
     unit_cube \<and>
   faces (heap (snd (make_hollow Exact (mem_lib Exact) ''Top.stl'' ''Top.stl'' (Fin 2) (disk unit_cube))) !
            Suc 0) = fliplr (faces unit_cube)"
proof -
  have ld: "load_mesh (mem_lib Exact) ''Top.stl'' (fs (disk unit_cube)) = Inr unit_cube"
    by simp
  show ?thesis
    using original_mesh_not_mutated
            [where A = Exact and out = "''Top.stl''" and wt = "Fin 2", OF ld]
    by (simp add: mem_bounds_unit_cube inner_shell_def)
qed

lemma hollow_shell_is_watertight_upd:
  "hollow_shell A (L\<lparr>is_watertight := f\<rparr>) m s = hollow_shell A L m s"
  by (simp add: hollow_shell_def inner_shell_def)

text \<open>
  C8. Watertightness is only printed. Whatever the watertightness check answers,
  the outcome of the call, the files and the mesh objects are the same; after a
  successful load and bounds query the answer appears on the console and the
  combined mesh is handed to the export, whose outcome is the outcome of the call.
\<close>

theorem watertightness_only_printed:
  "fst (make_hollow A (L\<lparr>is_watertight := f\<rparr>) inp out wt w) =
     fst (make_hollow A L inp out wt w) \<and>
   fs (snd (make_hollow A (L\<lparr>is_watertight := f\<rparr>) inp out wt w)) =
     fs (snd (make_hollow A L inp out wt w)) \<and>
   heap (snd (make_hollow A (L\<lparr>is_watertight := f\<rparr>) inp out wt w)) =
     heap (snd (make_hollow A L inp out wt w)) \<and>
   (\<forall>m b. load_mesh L inp (fs w) = Inr m \<and> bounds L m = Some b \<longrightarrow>
      Is_watertight (f m)
        \<in> set (stdout (snd (make_hollow A (L\<lparr>is_watertight := f\<rparr>) inp out wt w))) \<and>
      export L (hollow_shell A L m (clamp_scale_factor A (raw_scale_factor A b wt))) out (fs w) =
        (fst (make_hollow A (L\<lparr>is_watertight := f\<rparr>) inp out wt w),
         fs (snd (make_hollow A (L\<lparr>is_watertight := f\<rparr>) inp out wt w))))"
proof (cases "load_mesh L inp (fs w)")
  case (Inl e)
  have "load_mesh (L\<lparr>is_watertight := f\<rparr>) inp (fs w) = Inl e"
    using Inl by simp
  then show ?thesis
    using Inl by (simp add: make_hollow_load_fail)
next
  case (Inr m)
  have ld': "load_mesh (L\<lparr>is_watertight := f\<rparr>) inp (fs w) = Inr m"
    using Inr by simp
  show ?thesis
  proof (cases "bounds L m")
    case None
    have bd': "bounds (L\<lparr>is_watertight := f\<rparr>) m = None"
      using None by simp
    show ?thesis
      using Inr None
      by (simp add: make_hollow_bounds_fail [OF Inr None] make_hollow_bounds_fail [OF ld' bd'])
  next
    case (Some b)
    define s where "s = clamp_scale_factor A (raw_scale_factor A b wt)"
    have bd': "bounds (L\<lparr>is_watertight := f\<rparr>) m = Some b"
      using Some by simp
    note r = make_hollow_run [OF Inr Some s_def, of out]
    note r' = make_hollow_run [OF ld' bd' s_def, of out]
    have e: "export (L\<lparr>is_watertight := f\<rparr>) = export L"
      by simp
    have a: "fst (make_hollow A (L\<lparr>is_watertight := f\<rparr>) inp out wt w) =
               fst (make_hollow A L inp out wt w)"
      by (simp only: r(1) r'(1) e hollow_shell_is_watertight_upd)
    have b: "fs (snd (make_hollow A (L\<lparr>is_watertight := f\<rparr>) inp out wt w)) =
               fs (snd (make_hollow A L inp out wt w))"
      by (simp only: r(2) r'(2) e hollow_shell_is_watertight_upd)
    have c: "heap (snd (make_hollow A (L\<lparr>is_watertight := f\<rparr>) inp out wt w)) =
               heap (snd (make_hollow A L inp out wt w))"
      by (simp add: r(3) r'(3) hollow_shell_is_watertight_upd inner_shell_def)
    have d: "Is_watertight (f m)
               \<in> set (stdout (snd (make_hollow A (L\<lparr>is_watertight := f\<rparr>) inp out wt w)))"
      by (simp add: r'(4))
    have x: "export L (hollow_shell A L m s) out (fs w) =
               (fst (make_hollow A (L\<lparr>is_watertight := f\<rparr>) inp out wt w),
                fs (snd (make_hollow A (L\<lparr>is_watertight := f\<rparr>) inp out wt w)))"
      by (simp add: a b r(1) r(2))
    have q: "\<forall>m' b'. load_mesh L inp (fs w) = Inr m' \<and> bounds L m' = Some b' \<longrightarrow>
      Is_watertight (f m')
        \<in> set (stdout (snd (make_hollow A (L\<lparr>is_watertight := f\<rparr>) inp out wt w))) \<and>
      export L (hollow_shell A L m' (clamp_scale_factor A (raw_scale_factor A b' wt))) out (fs w) =
        (fst (make_hollow A (L\<lparr>is_watertight := f\<rparr>) inp out wt w),
         fs (snd (make_hollow A (L\<lparr>is_watertight := f\<rparr>) inp out wt w)))"
    proof (intro allI impI)
      fix m' b'
      assume h: "load_mesh L inp (fs w) = Inr m' \<and> bounds L m' = Some b'"
      with Inr have m: "m' = m" by simp
      with h Some have b: "b' = b" by simp
      show "Is_watertight (f m')
        \<in> set (stdout (snd (make_hollow A (L\<lparr>is_watertight := f\<rparr>) inp out wt w))) \<and>
        export L (hollow_shell A L m' (clamp_scale_factor A (raw_scale_factor A b' wt))) out (fs w) =
          (fst (make_hollow A (L\<lparr>is_watertight := f\<rparr>) inp out wt w),
           fs (snd (make_hollow A (L\<lparr>is_watertight := f\<rparr>) inp out wt w)))"
        unfolding m b using d x by (simp only: s_def) 
    qed
    from a b c q show ?thesis by blast
  qed
qed

text \<open>
  A library that reports every mesh as not watertight: the cube is still hollowed
  and exported.
\<close>

theorem watertightness_only_printed_witness:
  "Is_watertight False
     \<in> set (stdout (snd (make_hollow Exact ((mem_lib Exact)\<lparr>is_watertight := \<lambda>m. False\<rparr>)
                           ''Top.stl'' ''Top.stl'' (Fin 2) (disk unit_cube)))) \<and>
   fst (make_hollow Exact ((mem_lib Exact)\<lparr>is_watertight := \<lambda>m. False\<rparr>)
          ''Top.stl'' ''Top.stl'' (Fin 2) (disk unit_cube)) = None"
proof -
  have ld: "load_mesh (mem_lib Exact) ''Top.stl'' (fs (disk unit_cube)) = Inr unit_cube"
    by simp
  have bd: "bounds (mem_lib Exact) unit_cube = Some ((Fin 0, Fin 0, Fin 0), (Fin 1, Fin 1, Fin 1))"
    by (simp add: mem_bounds_unit_cube)
  note t = watertightness_only_printed
             [where A = Exact and L = "mem_lib Exact" and f = "\<lambda>m. False" and inp = "''Top.stl''"
                and out = "''Top.stl''" and wt = "Fin 2" and w = "disk unit_cube"]
  from t ld bd have a: "Is_watertight False
     \<in> set (stdout (snd (make_hollow Exact ((mem_lib Exact)\<lparr>is_watertight := \<lambda>m. False\<rparr>)
                           ''Top.stl'' ''Top.stl'' (Fin 2) (disk unit_cube))))"
    by blast
  from t ld bd have "export (mem_lib Exact)
       (hollow_shell Exact (mem_lib Exact) unit_cube
          (clamp_scale_factor Exact
             (raw_scale_factor Exact ((Fin 0, Fin 0, Fin 0), (Fin 1, Fin 1, Fin 1)) (Fin 2))))
       ''Top.stl'' (fs (disk unit_cube)) =
     (fst (make_hollow Exact ((mem_lib Exact)\<lparr>is_watertight := \<lambda>m. False\<rparr>)
             ''Top.stl'' ''Top.stl'' (Fin 2) (disk unit_cube)),
      fs (snd (make_hollow Exact ((mem_lib Exact)\<lparr>is_watertight := \<lambda>m. False\<rparr>)
                 ''Top.stl'' ''Top.stl'' (Fin 2) (disk unit_cube))))"
    by blast
  then have b: "fst (make_hollow Exact ((mem_lib Exact)\<lparr>is_watertight := \<lambda>m. False\<rparr>)
          ''Top.stl'' ''Top.stl'' (Fin 2) (disk unit_cube)) = None"
    by (simp add: mem_export_def)
  from a b show ?thesis by blast
qed

text \<open>
  C9, as the code behaves. There is no handler and no retry: the first exception
  ends the call. When loading raises, or the bounds are missing, the export has
  not been called and the files are exactly as before. Otherwise the exception
  is the one raised by the export, and the files are as the export left them; they
  are unchanged whenever the library's export changes nothing when it raises.
\<close>

theorem failure_before_export_leaves_files:
  assumes fail: "fst (make_hollow A L inp out wt w) = Some e"
  shows "((load_mesh L inp (fs w) = Inl e \<and>
           fs (snd (make_hollow A L inp out wt w)) = fs w) \<or>
          (\<exists>m. load_mesh L inp (fs w) = Inr m \<and> bounds L m = None \<and> e = TypeError \<and>
               fs (snd (make_hollow A L inp out wt w)) = fs w) \<or>
          (\<exists>m b. load_mesh L inp (fs w) = Inr m \<and> bounds L m = Some b \<and>
               export L (hollow_shell A L m (clamp_scale_factor A (raw_scale_factor A b wt)))
                 out (fs w) = (Some e, fs (snd (make_hollow A L inp out wt w))))) \<and>
         ((\<forall>H p f e' f'. export L H p f = (Some e', f') \<longrightarrow> f' = f) \<longrightarrow>
            fs (snd (make_hollow A L inp out wt w)) = fs w)"
proof (cases "load_mesh L inp (fs w)")
  case (Inl e')
  have "make_hollow A L inp out wt w = (Some e', py_print (Loading inp) w)"
    by (rule make_hollow_load_fail [OF Inl])
  with fail Inl show ?thesis by simp
next
  case (Inr m)
  show ?thesis
  proof (cases "bounds L m")
    case None
    note b = make_hollow_bounds_fail [where A = A and out = out and wt = wt, OF Inr None]
    from fail b(1) have "e = TypeError" by simp
    with Inr None b(2) show ?thesis by simp
  next
    case (Some b)
    define s where "s = clamp_scale_factor A (raw_scale_factor A b wt)"
    note r = make_hollow_run [OF Inr Some s_def, of out]
    have x: "export L (hollow_shell A L m s) out (fs w) =
               (Some e, fs (snd (make_hollow A L inp out wt w)))"
      using fail by (simp add: prod_eq_iff r(1) [symmetric] r(2) [symmetric])
    have y: "(\<forall>H p f e' f'. export L H p f = (Some e', f') \<longrightarrow> f' = f) \<longrightarrow>
            fs (snd (make_hollow A L inp out wt w)) = fs w"
      using x by blast
    from x [unfolded s_def] y Inr Some show ?thesis
      by blast
  qed
qed

text \<open>
  Loading a file that does not exist: the exception propagates and the files are
  untouched.
\<close>

theorem failure_before_export_leaves_files_witness:
  "fst (make_hollow Exact (mem_lib Exact) ''Missing.stl'' ''Top.stl'' (Fin 2) (disk unit_cube)) =
     Some (Raised ''FileNotFoundError'') \<and>
   fs (snd (make_hollow Exact (mem_lib Exact) ''Missing.stl'' ''Top.stl'' (Fin 2) (disk unit_cube))) =
     fs (disk unit_cube)"
proof -
  have ld: "load_mesh (mem_lib Exact) ''Missing.stl'' (fs (disk unit_cube)) =
              Inl (Raised ''FileNotFoundError'')"
    by (simp add: mem_load_def)
  have fail: "fst (make_hollow Exact (mem_lib Exact) ''Missing.stl'' ''Top.stl'' (Fin 2) (disk unit_cube)) =
                Some (Raised ''FileNotFoundError'')"
    by (simp add: make_hollow_load_fail [OF ld])
  have "fs (snd (make_hollow Exact (mem_lib Exact) ''Missing.stl'' ''Top.stl'' (Fin 2) (disk unit_cube))) =
          fs (disk unit_cube)"
    using failure_before_export_leaves_files [OF fail] ld by auto
  with fail show ?thesis by blast
qed

text \<open>
  With an export that empties its target and then raises, the failed call leaves
  the output path overwritten; here the output path is also the input file.
\<close>

theorem failed_export_counterexample:
  "fst (make_hollow Exact ((mem_lib Exact)\<lparr>export := truncating_export\<rparr>)
          ''Top.stl'' ''Top.stl'' (Fin 2) (disk unit_cube)) = Some (Raised ''OSError'') \<and>
   map_of (fs (disk unit_cube)) ''Top.stl'' = Some unit_cube \<and>
   map_of (fs (snd (make_hollow Exact ((mem_lib Exact)\<lparr>export := truncating_export\<rparr>)
                      ''Top.stl'' ''Top.stl'' (Fin 2) (disk unit_cube)))) ''Top.stl'' =
     Some \<lparr>vertices = [], faces = []\<rparr>"
proof -
  let ?L = "(mem_lib Exact)\<lparr>export := truncating_export\<rparr>"
  have ld: "load_mesh ?L ''Top.stl'' (fs (disk unit_cube)) = Inr unit_cube"
    by simp
  have bd: "bounds ?L unit_cube = Some ((Fin 0, Fin 0, Fin 0), (Fin 1, Fin 1, Fin 1))"
    by (simp add: mem_bounds_unit_cube)
  note r = make_hollow_run [where A = Exact and out = "''Top.stl''" and wt = "Fin 2", OF ld bd refl]
  have a: "fst (make_hollow Exact ?L ''Top.stl'' ''Top.stl'' (Fin 2) (disk unit_cube)) =
             Some (Raised ''OSError'')"
    by (simp add: r(1) truncating_export_def)
  have b: "map_of (fs (snd (make_hollow Exact ?L ''Top.stl'' ''Top.stl'' (Fin 2) (disk unit_cube))))
             ''Top.stl'' = Some \<lparr>vertices = [], faces = []\<rparr>"
    by (simp add: r(2) truncating_export_def)
  have c: "map_of (fs (disk unit_cube)) ''Top.stl'' = Some unit_cube"
    by simp
  from a b c show ?thesis by blast
qed

end
